theory Spec2Isabelle
  imports Complex_Main "HOL-Library.Multiset" "HOL-Library.Sublist"
    "HOL-Library.Char_ord" "HOL-Library.List_Lexorder"
begin

section \<open>Data model of \<^verbatim>\<open>Controller.py\<close>\<close>

text \<open>
  Python floats are idealised as reals throughout, and a \<^verbatim>\<open>datetime\<close> is the
  real number of seconds it denotes, so that
  \<^verbatim>\<open>(a - b).total_seconds()\<close> is the difference \<open>a - b\<close>. The call
  \<^verbatim>\<open>datetime.now()\<close> inside the scorer is the parameter \<open>now\<close>.
\<close>

datatype JobPriority = NORMAL | URGENT

datatype ResourceType = CPU | GPU | MEMORY

text \<open>
  \<^verbatim>\<open>JobInfo.resources\<close> is a Python dict that the scorer iterates with
  \<^verbatim>\<open>.items()\<close>: an association list in insertion order (a dict holds each key
  once). \<^verbatim>\<open>ClusterInfo.total_resources\<close> is only looked up by key: a map.
\<close>

record JobInfo =
  name :: string
  namespace :: string
  priority :: JobPriority
  creation_timestamp :: real
  resources :: "(ResourceType \<times> real) list"
  gang_scheduling :: bool
  gang_id :: "string option"

record ClusterInfo =
  total_resources :: "ResourceType \<rightharpoonup> real"
  allocated_resources :: "ResourceType \<rightharpoonup> real"

record DRFScheduler =
  aging_alpha :: real

text \<open>\<^verbatim>\<open>DRFScheduler.__init__(self, aging_alpha: float = 0.1)\<close>; \<open>None\<close> is the
  call that leaves the argument out.\<close>

definition DRFScheduler_init :: "real option \<Rightarrow> DRFScheduler" where
  "DRFScheduler_init a =
     \<lparr>aging_alpha = (case a of None \<Rightarrow> 1 / 10 | Some x \<Rightarrow> x)\<rparr>"

section \<open>The DRF scorer\<close>

text \<open>Python's \<^verbatim>\<open>max\<close> on a non-empty list: the first element is the candidate and
  a later element replaces it only when strictly greater.\<close>

fun py_max :: "real list \<Rightarrow> real" where
  "py_max [] = 0"
| "py_max (x # xs) = fold (\<lambda>y m. if m < y then y else m) xs x"

text \<open>The loop of \<^verbatim>\<open>calculate_dominant_share\<close>: one share is appended for every
  requested kind that the cluster totals hold with a positive total.\<close>

fun dominant_shares :: "(ResourceType \<times> real) list \<Rightarrow> (ResourceType \<rightharpoonup> real) \<Rightarrow> real list" where
  "dominant_shares [] tot = []"
| "dominant_shares ((resource_type, requested_amount) # rest) tot =
     (case tot resource_type of
        Some total_resource \<Rightarrow>
          (if total_resource > 0
           then (requested_amount / total_resource) # dominant_shares rest tot
           else dominant_shares rest tot)
      | None \<Rightarrow> dominant_shares rest tot)"

definition calculate_dominant_share :: "JobInfo \<Rightarrow> ClusterInfo \<Rightarrow> real" where
  "calculate_dominant_share job cluster_info =
     (let shares = dominant_shares (resources job) (total_resources cluster_info)
      in if shares \<noteq> [] then py_max shares else 0)"

definition calculate_priority_score :: "DRFScheduler \<Rightarrow> real \<Rightarrow> JobInfo \<Rightarrow> ClusterInfo \<Rightarrow> real" where
  "calculate_priority_score self now job cluster_info =
     (let dominant_share = calculate_dominant_share job cluster_info;
          time_diff = now - creation_timestamp job;
          aging_factor = aging_alpha self * time_diff;
          priority_weight = (if priority job = URGENT then 0 else 1000)
      in priority_weight + dominant_share - aging_factor)"

section \<open>The gang filter and the ranking\<close>

text \<open>
  Python truthiness. \<^verbatim>\<open>job.gang_id\<close> is an optional string: \<^verbatim>\<open>None\<close> and the
  empty string are false. A \<^verbatim>\<open>JobInfo\<close> is a pydantic model, which defines neither
  \<^verbatim>\<open>__bool__\<close> nor \<^verbatim>\<open>__len__\<close>: every instance is true.
\<close>

definition str_truthy :: "string option \<Rightarrow> bool" where
  "str_truthy s = (case s of None \<Rightarrow> False | Some v \<Rightarrow> v \<noteq> [])"

definition JobInfo_truthy :: "JobInfo \<Rightarrow> bool" where
  "JobInfo_truthy job = True"

text \<open>\<^verbatim>\<open>gang_groups\<close> is a dict from gang id to the list of its jobs, in insertion
  order: \<^verbatim>\<open>if gang_id not in gang_groups: gang_groups[gang_id] = []\<close> followed by
  \<^verbatim>\<open>gang_groups[gang_id].append(job)\<close>.\<close>

fun gang_groups_append :: "(string \<times> JobInfo list) list \<Rightarrow> string \<Rightarrow> JobInfo
    \<Rightarrow> (string \<times> JobInfo list) list" where
  "gang_groups_append [] g job = [(g, [job])]"
| "gang_groups_append ((g', gang_jobs) # rest) g job =
     (if g' = g then (g', gang_jobs @ [job]) # rest
      else (g', gang_jobs) # gang_groups_append rest g job)"

fun group_by_gang :: "JobInfo list \<Rightarrow> (string \<times> JobInfo list) list
    \<Rightarrow> (string \<times> JobInfo list) list" where
  "group_by_gang [] gang_groups = gang_groups"
| "group_by_gang (job # jobs) gang_groups =
     (if gang_scheduling job \<and> str_truthy (gang_id job)
      then (case gang_id job of
              Some g \<Rightarrow> group_by_gang jobs (gang_groups_append gang_groups g job)
            | None \<Rightarrow> group_by_gang jobs gang_groups)
      else group_by_gang jobs gang_groups)"

fun collect_ready_gangs :: "(string \<times> JobInfo list) list \<Rightarrow> JobInfo list" where
  "collect_ready_gangs [] = []"
| "collect_ready_gangs ((g, gang_jobs) # rest) =
     (if list_all JobInfo_truthy gang_jobs
      then gang_jobs @ collect_ready_gangs rest
      else collect_ready_gangs rest)"

definition handle_gang_scheduling :: "JobInfo list \<Rightarrow> JobInfo list" where
  "handle_gang_scheduling jobs =
     (let gang_groups = group_by_gang jobs [];
          ready_gangs = collect_ready_gangs gang_groups;
          non_gang_jobs = filter (\<lambda>job. \<not> gang_scheduling job) jobs
      in ready_gangs @ non_gang_jobs)"

text \<open>
  \<^verbatim>\<open>calculate_job_priorities\<close>. The two observers are its inputs: \<open>pending_jobs\<close> is
  what \<^verbatim>\<open>get_pending_jobs\<close> returned and \<open>cluster_info\<close> what
  \<^verbatim>\<open>get_cluster_info\<close> returned (\<open>None\<close> after an API error). One reading of the
  clock serves the whole tick. \<^verbatim>\<open>list.sort(key=lambda x: x[1])\<close> is a stable sort on the
  score alone, as \<open>sort_key snd\<close> is.
\<close>

definition calculate_job_priorities :: "DRFScheduler \<Rightarrow> real \<Rightarrow> JobInfo list
    \<Rightarrow> ClusterInfo option \<Rightarrow> (JobInfo \<times> real) list" where
  "calculate_job_priorities drf_scheduler now pending_jobs cluster_info =
     (if pending_jobs = [] then []
      else case cluster_info of
        None \<Rightarrow> []
      | Some c \<Rightarrow>
          (let schedulable_jobs = handle_gang_scheduling pending_jobs;
               job_priorities =
                 map (\<lambda>job. (job, calculate_priority_score drf_scheduler now job c)) schedulable_jobs
           in sort_key snd job_priorities))"

section \<open>The job observer\<close>

text \<open>
  The job object of the batch API, as the kubernetes client delivers it and as far as
  \<^verbatim>\<open>get_pending_jobs\<close> and \<^verbatim>\<open>_extract_job_info\<close> read it. The annotations and
  the requests of a container are dicts from strings to strings (or \<^verbatim>\<open>None\<close>):
  association lists read with \<open>map_of\<close>. The status is the client's
  \<^verbatim>\<open>V1JobStatus\<close>, which has \<^verbatim>\<open>conditions\<close> among its attributes and no
  \<^verbatim>\<open>phase\<close>.
\<close>

datatype py_error = ValueError | AttributeError | KeyError

record K8sResourceRequirements =
  requests :: "(string \<times> string) list option"

record K8sContainer =
  container_resources :: "K8sResourceRequirements option"

record K8sJob =
  job_name :: string
  job_namespace :: string
  job_creation_timestamp :: real
  job_annotations :: "(string \<times> string) list option"
  job_containers :: "K8sContainer list"
  status_conditions :: "string list"

text \<open>
  Attribute access on a dict. \<^verbatim>\<open>hasattr(d, n)\<close> asks for an attribute of the dict
  object, not for a key: it holds for the names of its methods, and the attribute is
  then a bound method. (The special names with double underscores are attributes as
  well; the source never asks for one.) \<open>None\<close> is \<^verbatim>\<open>hasattr\<close> false.
\<close>

datatype py_value = Py_str string | Py_method

definition dict_method_names :: "string list" where
  "dict_method_names =
     [''clear'', ''copy'', ''fromkeys'', ''get'', ''items'', ''keys'', ''pop'', ''popitem'',
      ''setdefault'', ''update'', ''values'']"

definition dict_getattr :: "(string \<times> string) list \<Rightarrow> string \<Rightarrow> py_value option" where
  "dict_getattr d n = (if n \<in> set dict_method_names then Some Py_method else None)"

text \<open>\<^verbatim>\<open>s.endswith(suf)\<close> and the slice \<^verbatim>\<open>s[:-n]\<close> for positive \<open>n\<close>.\<close>

definition endswith :: "string \<Rightarrow> string \<Rightarrow> bool" where
  "endswith s suf = (length suf \<le> length s \<and> drop (length s - length suf) s = suf)"

definition drop_last :: "nat \<Rightarrow> string \<Rightarrow> string" where
  "drop_last n s = take (length s - n) s"

text \<open>
  Python's built-in \<^verbatim>\<open>float\<close> on a string is the parameter \<open>float\<close> of the parsers:
  it returns the number or raises \<^verbatim>\<open>ValueError\<close>. Nothing in the source catches the
  error inside a parser.
\<close>

definition parse_cpu_request :: "(string \<Rightarrow> py_error + real) \<Rightarrow> string \<Rightarrow> py_error + real" where
  "parse_cpu_request float cpu_str =
     (if endswith cpu_str ''m''
      then (case float (drop_last 1 cpu_str) of Inl e \<Rightarrow> Inl e | Inr v \<Rightarrow> Inr (v / 1000))
      else float cpu_str)"

definition parse_memory_request :: "(string \<Rightarrow> py_error + real) \<Rightarrow> string \<Rightarrow> py_error + real" where
  "parse_memory_request float memory_str =
     (if endswith memory_str ''Ki''
      then (case float (drop_last 2 memory_str) of Inl e \<Rightarrow> Inl e | Inr v \<Rightarrow> Inr (v / 1024))
      else if endswith memory_str ''Mi''
      then float (drop_last 2 memory_str)
      else if endswith memory_str ''Gi''
      then (case float (drop_last 2 memory_str) of Inl e \<Rightarrow> Inl e | Inr v \<Rightarrow> Inr (v * 1024))
      else if endswith memory_str ''Ti''
      then (case float (drop_last 2 memory_str) of Inl e \<Rightarrow> Inl e
            | Inr v \<Rightarrow> Inr (v * 1024 * 1024))
      else (case float memory_str of Inl e \<Rightarrow> Inl e | Inr v \<Rightarrow> Inr (v / (1024 * 1024))))"

text \<open>\<^verbatim>\<open>resources[kind] = value\<close>, where evaluating the value may raise. Each kind is
  assigned at most once, so the new key goes to the end.\<close>

definition set_resource :: "ResourceType \<Rightarrow> py_error + real \<Rightarrow> (ResourceType \<times> real) list
    \<Rightarrow> py_error + (ResourceType \<times> real) list" where
  "set_resource kind parsed res =
     (case parsed of Inl e \<Rightarrow> Inl e | Inr v \<Rightarrow> Inr (res @ [(kind, v)]))"

text \<open>A parser applied to the value of an attribute: on a string it runs; on a
  method the first thing it does, \<^verbatim>\<open>.endswith\<close>, raises \<^verbatim>\<open>AttributeError\<close>.\<close>

definition parse_cpu_request_value :: "(string \<Rightarrow> py_error + real) \<Rightarrow> py_value
    \<Rightarrow> py_error + real" where
  "parse_cpu_request_value float v =
     (case v of Py_str cpu_str \<Rightarrow> parse_cpu_request float cpu_str
      | Py_method \<Rightarrow> Inl AttributeError)"

definition parse_memory_request_value :: "(string \<Rightarrow> py_error + real) \<Rightarrow> py_value
    \<Rightarrow> py_error + real" where
  "parse_memory_request_value float v =
     (case v of Py_str memory_str \<Rightarrow> parse_memory_request float memory_str
      | Py_method \<Rightarrow> Inl AttributeError)"

text \<open>\<^verbatim>\<open>float(requests['nvidia.com/gpu'])\<close>: the subscript reads the key of the dict.\<close>

definition float_of_key :: "(string \<Rightarrow> py_error + real) \<Rightarrow> (string \<times> string) list \<Rightarrow> string
    \<Rightarrow> py_error + real" where
  "float_of_key float d k = (case map_of d k of None \<Rightarrow> Inl KeyError | Some s \<Rightarrow> float s)"

text \<open>The three \<^verbatim>\<open>if hasattr(requests, ...)\<close> statements, in the source's order.\<close>

definition extract_requests :: "(string \<Rightarrow> py_error + real) \<Rightarrow> (string \<times> string) list
    \<Rightarrow> py_error + (ResourceType \<times> real) list" where
  "extract_requests float rq =
     (case (case dict_getattr rq ''cpu'' of None \<Rightarrow> Inr []
            | Some v \<Rightarrow> set_resource CPU (parse_cpu_request_value float v) []) of
        Inl e \<Rightarrow> Inl e
      | Inr r1 \<Rightarrow>
          (case (case dict_getattr rq ''memory'' of None \<Rightarrow> Inr r1
                 | Some v \<Rightarrow> set_resource MEMORY (parse_memory_request_value float v) r1) of
             Inl e \<Rightarrow> Inl e
           | Inr r2 \<Rightarrow>
               (case dict_getattr rq ''nvidia.com/gpu'' of None \<Rightarrow> Inr r2
                | Some v \<Rightarrow> set_resource GPU (float_of_key float rq ''nvidia.com/gpu'') r2)))"

text \<open>\<^verbatim>\<open>if container.resources and container.resources.requests\<close>: an empty dict is
  false.\<close>

definition extract_resources :: "(string \<Rightarrow> py_error + real) \<Rightarrow> K8sJob
    \<Rightarrow> py_error + (ResourceType \<times> real) list" where
  "extract_resources float job =
     (case job_containers job of
        [] \<Rightarrow> Inr []
      | container # _ \<Rightarrow>
          (case container_resources container of
             None \<Rightarrow> Inr []
           | Some res \<Rightarrow>
               (case requests res of
                  None \<Rightarrow> Inr []
                | Some rq \<Rightarrow> if rq = [] then Inr [] else extract_requests float rq)))"

text \<open>\<^verbatim>\<open>str.lower()\<close> on ASCII letters.\<close>

definition lower_char :: "char \<Rightarrow> char" where
  "lower_char c =
     (case map_of (zip ''ABCDEFGHIJKLMNOPQRSTUVWXYZ'' ''abcdefghijklmnopqrstuvwxyz'') c of
        None \<Rightarrow> c
      | Some l \<Rightarrow> l)"

definition py_lower :: "string \<Rightarrow> string" where
  "py_lower s = map lower_char s"

definition annotations_get :: "(string \<times> string) list option \<Rightarrow> string \<Rightarrow> string option" where
  "annotations_get a k = (case a of None \<Rightarrow> None | Some d \<Rightarrow> map_of d k)"

definition annotations_truthy :: "(string \<times> string) list option \<Rightarrow> bool" where
  "annotations_truthy a = (case a of None \<Rightarrow> False | Some d \<Rightarrow> d \<noteq> [])"

text \<open>\<^verbatim>\<open>_extract_job_info\<close>: the whole body is inside one \<^verbatim>\<open>try\<close>, and
  \<^verbatim>\<open>except Exception\<close> returns \<^verbatim>\<open>None\<close>.\<close>

definition extract_job_info :: "(string \<Rightarrow> py_error + real) \<Rightarrow> K8sJob \<Rightarrow> JobInfo option" where
  "extract_job_info float job =
     (let a = job_annotations job;
          prio = (if annotations_truthy a \<and> annotations_get a ''priority'' = Some ''approved''
                  then URGENT else NORMAL)
      in case extract_resources float job of
           Inl e \<Rightarrow> None
         | Inr res \<Rightarrow>
             Some \<lparr>name = job_name job, namespace = job_namespace job, priority = prio,
                   creation_timestamp = job_creation_timestamp job, resources = res,
                   gang_scheduling =
                     (annotations_truthy a
                      \<and> py_lower (case annotations_get a ''gang-scheduling'' of
                                    None \<Rightarrow> ''false'' | Some v \<Rightarrow> v) = ''true''),
                   gang_id = (if annotations_truthy a then annotations_get a ''gang-id''
                              else None)\<rparr>)"

text \<open>
  \<^verbatim>\<open>job.status.phase\<close>: the status has no such attribute, the read raises.
  \<^verbatim>\<open>job.status.phase == "Pending" or not job.status.conditions\<close> reads it first.
\<close>

definition status_phase :: "K8sJob \<Rightarrow> py_error + string" where
  "status_phase job = Inl AttributeError"

definition is_pending :: "K8sJob \<Rightarrow> py_error + bool" where
  "is_pending job =
     (case status_phase job of
        Inl e \<Rightarrow> Inl e
      | Inr phase \<Rightarrow> Inr (phase = ''Pending'' \<or> status_conditions job = []))"

text \<open>
  \<^verbatim>\<open>get_pending_jobs\<close>: \<open>items\<close> is the listing of the batch API, \<open>None\<close> when the
  call raised \<^verbatim>\<open>ApiException\<close>, the one error the function catches; any other error
  of the loop leaves the function. A job whose extraction returned \<^verbatim>\<open>None\<close> is not
  appended.
\<close>

fun pending_jobs_loop :: "(string \<Rightarrow> py_error + real) \<Rightarrow> K8sJob list \<Rightarrow> JobInfo list
    \<Rightarrow> py_error + JobInfo list" where
  "pending_jobs_loop float [] pending_jobs = Inr pending_jobs"
| "pending_jobs_loop float (job # rest) pending_jobs =
     (case is_pending job of
        Inl e \<Rightarrow> Inl e
      | Inr pending \<Rightarrow>
          (if pending
           then (case extract_job_info float job of
                   None \<Rightarrow> pending_jobs_loop float rest pending_jobs
                 | Some job_info \<Rightarrow> pending_jobs_loop float rest (pending_jobs @ [job_info]))
           else pending_jobs_loop float rest pending_jobs))"

definition get_pending_jobs :: "(string \<Rightarrow> py_error + real) \<Rightarrow> K8sJob list option
    \<Rightarrow> py_error + JobInfo list" where
  "get_pending_jobs float items =
     (case items of
        None \<Rightarrow> Inr []
      | Some js \<Rightarrow> pending_jobs_loop float js [])"

text \<open>
  An instance of \<open>float\<close> for the concrete inputs below: an optional sign, digits, and
  an optional point with digits, at least one digit in all; anything else raises.
  On such plain decimal literals it returns what Python's \<^verbatim>\<open>float\<close> returns, and it
  raises on \<^verbatim>\<open>abc\<close> as Python does. Exponents, underscores, surrounding blanks,
  \<^verbatim>\<open>inf\<close> and \<^verbatim>\<open>nan\<close>, which Python reads as well, are outside this instance; the
  general statements below hold for every \<open>float\<close>.
\<close>

definition digit_of :: "char \<Rightarrow> nat option" where
  "digit_of c = map_of (zip ''0123456789'' [0, 1, 2, 3, 4, 5, 6, 7, 8, 9]) c"

fun digits_to_nat :: "string \<Rightarrow> nat \<Rightarrow> nat option" where
  "digits_to_nat [] acc = Some acc"
| "digits_to_nat (c # cs) acc =
     (case digit_of c of None \<Rightarrow> None | Some d \<Rightarrow> digits_to_nat cs (10 * acc + d))"

definition py_float_decimal :: "string \<Rightarrow> py_error + real" where
  "py_float_decimal s =
     (let neg = (s \<noteq> [] \<and> hd s = CHR ''-'');
          body = (if s \<noteq> [] \<and> (hd s = CHR ''-'' \<or> hd s = CHR ''+'') then tl s else s);
          int_part = takeWhile (\<lambda>c. c \<noteq> CHR ''.'') body;
          frac_part = (case dropWhile (\<lambda>c. c \<noteq> CHR ''.'') body of [] \<Rightarrow> [] | _ # f \<Rightarrow> f)
      in if int_part = [] \<and> frac_part = [] then Inl ValueError
         else (case (digits_to_nat int_part 0, digits_to_nat frac_part 0) of
                 (Some i, Some f) \<Rightarrow>
                   Inr ((if neg then - 1 else 1) * (real i + real f / 10 ^ length frac_part))
               | _ \<Rightarrow> Inl ValueError))"

section \<open>The queue updater of \<^verbatim>\<open>kueue_integration.py\<close>\<close>

text \<open>
  A workload of the queue, as far as the updater reads it: its name (the empty string
  when the metadata hold none) and its namespace (\<open>None\<close> when the key is missing, which
  makes \<^verbatim>\<open>workload['metadata']['namespace']\<close> raise). \<^verbatim>\<open>str(x)\<close> is kept symbolic:
  an annotation value records which number is rendered.
\<close>

record Workload =
  workload_name :: string
  workload_namespace :: "string option"

datatype py_str = Str string | Str_of_float real | Str_of_int nat

record PatchBody =
  annotations :: "(string \<times> py_str) list"
  spec_priority :: int

record PatchCall =
  call_namespace :: string
  call_name :: string
  call_body :: PatchBody

text \<open>
  The queue's API as the updater sees it during one update: the listing of the
  workloads (\<open>None\<close> when the call raises \<^verbatim>\<open>ApiException\<close>) and whether a patch call
  returns (\<open>True\<close>) or raises.
\<close>

record KueueApi =
  list_workloads :: "Workload list option"
  patch_succeeds :: "PatchCall \<Rightarrow> bool"

text \<open>\<^verbatim>\<open>int(x)\<close> on a float truncates toward zero.\<close>

definition py_int :: "real \<Rightarrow> int" where
  "py_int x = (if 0 \<le> x then \<lfloor>x\<rfloor> else \<lceil>x\<rceil>)"

text \<open>\<^verbatim>\<open>_get_workload_for_job\<close>: the first workload whose name contains the job's name
  (\<^verbatim>\<open>job.name in workload_name\<close>).\<close>

definition get_workload_for_job :: "KueueApi \<Rightarrow> JobInfo \<Rightarrow> Workload option" where
  "get_workload_for_job api job =
     (case list_workloads api of
        None \<Rightarrow> None
      | Some workloads \<Rightarrow> find (\<lambda>workload. sublist (name job) (workload_name workload)) workloads)"

definition patch_body :: "real \<Rightarrow> nat \<Rightarrow> PatchBody" where
  "patch_body priority_score rank =
     \<lparr>annotations =
        [(''drf-scheduler/priority-score'', Str_of_float priority_score),
         (''drf-scheduler/rank'', Str_of_int rank),
         (''drf-scheduler/updated-by'', Str ''drf-controller'')],
      spec_priority = py_int (priority_score * 1000)\<rparr>"

text \<open>
  \<^verbatim>\<open>_update_workload_priority\<close> returns nothing and re-raises every error; the model
  returns whether it returned, and the patch call it issued, if it got that far.
\<close>

definition update_workload_priority_private :: "KueueApi \<Rightarrow> Workload \<Rightarrow> real \<Rightarrow> nat
    \<Rightarrow> bool \<times> PatchCall option" where
  "update_workload_priority_private api workload priority_score rank =
     (case workload_namespace workload of
        None \<Rightarrow> (False, None)
      | Some ns \<Rightarrow>
          (let call = \<lparr>call_namespace = ns, call_name = workload_name workload,
                       call_body = patch_body priority_score rank\<rparr>
           in (patch_succeeds api call, Some call)))"

text \<open>\<^verbatim>\<open>update_workload_priority\<close>: the boolean it returns, and the patch call issued.\<close>

definition update_workload_priority :: "KueueApi \<Rightarrow> JobInfo \<Rightarrow> real \<Rightarrow> nat
    \<Rightarrow> bool \<times> PatchCall option" where
  "update_workload_priority api job priority_score rank =
     (case get_workload_for_job api job of
        None \<Rightarrow> (False, None)
      | Some workload \<Rightarrow> update_workload_priority_private api workload priority_score rank)"

definition batch_size :: nat where
  "batch_size = 10"

definition patch_job :: "KueueApi \<Rightarrow> nat \<times> JobInfo \<times> real \<Rightarrow> bool \<times> PatchCall option" where
  "patch_job api args =
     (case args of (rank, job, priority_score) \<Rightarrow>
        update_workload_priority api job priority_score rank)"

text \<open>
  The loop \<^verbatim>\<open>for i in range(0, total_count, batch_size)\<close> of
  \<^verbatim>\<open>update_all_job_priorities\<close>, from index \<open>i\<close> on: each round enumerates the slice
  \<^verbatim>\<open>job_priorities[i:i+batch_size]\<close> from rank \<open>i + 1\<close>, maps \<^verbatim>\<open>patch_job\<close> over it
  (\<^verbatim>\<open>executor.map\<close> yields the results in the order of the batch and is exhausted
  before the next round starts) and adds the number of successes to
  \<^verbatim>\<open>success_count\<close>. The result is the final count and the rounds in the order they ran.
\<close>

function update_batches :: "KueueApi \<Rightarrow> (JobInfo \<times> real) list \<Rightarrow> nat \<Rightarrow> nat
    \<Rightarrow> nat \<times> ((nat \<times> JobInfo \<times> real) list \<times> (bool \<times> PatchCall option) list) list" where
  "update_batches api job_priorities i success_count =
     (if i < length job_priorities
      then (let batch = enumerate (i + 1) (take batch_size (drop i job_priorities));
                results = map (patch_job api) batch;
                rest = update_batches api job_priorities (i + batch_size)
                         (success_count + length (filter fst results))
            in (fst rest, (batch, results) # snd rest))
      else (success_count, []))"
  by pat_completeness auto
termination
  by (relation "measure (\<lambda>(api, job_priorities, i, success_count). length job_priorities - i)")
     (auto simp: batch_size_def)

record UpdateTrace =
  success_count :: nat
  total_count :: nat
  rounds :: "((nat \<times> JobInfo \<times> real) list \<times> (bool \<times> PatchCall option) list) list"

text \<open>\<^verbatim>\<open>update_all_job_priorities\<close>: \<^verbatim>\<open>sorted(job_priorities, key=lambda x: x[1])\<close> is
  a stable sort on the score. The function itself returns nothing; the model returns
  the two counts of its log line and the rounds.\<close>

definition update_all_job_priorities :: "KueueApi \<Rightarrow> (JobInfo \<times> real) list \<Rightarrow> UpdateTrace" where
  "update_all_job_priorities api job_priorities =
     (let sorted_priorities = sort_key snd job_priorities;
          r = update_batches api sorted_priorities 0 0
      in \<lparr>success_count = fst r, total_count = length sorted_priorities, rounds = snd r\<rparr>)"

subsection \<open>The specification's wording of the scorer\<close>

definition spec_classWeight :: "JobPriority \<Rightarrow> real" where
  "spec_classWeight c = (case c of URGENT \<Rightarrow> 0 | NORMAL \<Rightarrow> 1000)"

definition spec_age_seconds :: "real \<Rightarrow> JobInfo \<Rightarrow> real" where
  "spec_age_seconds now job = now - creation_timestamp job"

text \<open>The specification's resource vector: a missing key is zero.\<close>

definition spec_request :: "JobInfo \<Rightarrow> ResourceType \<Rightarrow> real" where
  "spec_request job k = (case map_of (resources job) k of None \<Rightarrow> 0 | Some r \<Rightarrow> r)"

definition all_kinds :: "ResourceType list" where
  "all_kinds = [CPU, GPU, MEMORY]"

definition spec_considered :: "ClusterInfo \<Rightarrow> ResourceType list" where
  "spec_considered cluster =
     filter (\<lambda>k. case total_resources cluster k of None \<Rightarrow> False | Some t \<Rightarrow> t > 0) all_kinds"

definition spec_dominantShare :: "JobInfo \<Rightarrow> ClusterInfo \<Rightarrow> real" where
  "spec_dominantShare job cluster =
     (let ks = spec_considered cluster
      in if ks = [] then 0
         else Max ((\<lambda>k. spec_request job k / the (total_resources cluster k)) ` set ks))"

text \<open>The specification's aging term with the clamp it describes for a negative age.\<close>

definition spec_clamped_score :: "DRFScheduler \<Rightarrow> real \<Rightarrow> JobInfo \<Rightarrow> ClusterInfo \<Rightarrow> real" where
  "spec_clamped_score self now job cluster =
     spec_classWeight (priority job) + calculate_dominant_share job cluster
       - aging_alpha self * max 0 (spec_age_seconds now job)"

text \<open>The specification's ranking: score ascending, ties by creation instant ascending,
  then by identity (name, then namespace) in lexicographic order.\<close>

definition spec_ranked_before :: "JobInfo \<times> real \<Rightarrow> JobInfo \<times> real \<Rightarrow> bool" where
  "spec_ranked_before a b =
     (snd a < snd b
      \<or> (snd a = snd b
          \<and> (creation_timestamp (fst a) < creation_timestamp (fst b)
             \<or> (creation_timestamp (fst a) = creation_timestamp (fst b)
                 \<and> (name (fst a) < name (fst b)
                    \<or> (name (fst a) = name (fst b)
                        \<and> namespace (fst a) \<le> namespace (fst b)))))))"

definition spec_ranked :: "(JobInfo \<times> real) list \<Rightarrow> bool" where
  "spec_ranked xs = sorted_wrt spec_ranked_before xs"

section \<open>Concrete jobs and clusters used below\<close>

definition cluster_32_8 :: ClusterInfo where
  "cluster_32_8 =
     \<lparr>total_resources = [CPU \<mapsto> 32, GPU \<mapsto> 8, MEMORY \<mapsto> 131072],
      allocated_resources = [CPU \<mapsto> 16, GPU \<mapsto> 4, MEMORY \<mapsto> 65536]\<rparr>"

definition job_A :: JobInfo where
  "job_A = \<lparr>name = ''test-job-1'', namespace = ''default'', priority = URGENT,
            creation_timestamp = 0, resources = [(CPU, 4), (GPU, 2), (MEMORY, 8192)],
            gang_scheduling = False, gang_id = None\<rparr>"

definition job_future :: JobInfo where
  "job_future = \<lparr>name = ''skewed'', namespace = ''default'', priority = NORMAL,
            creation_timestamp = 10, resources = [],
            gang_scheduling = False, gang_id = None\<rparr>"

definition cluster_gpu0 :: ClusterInfo where
  "cluster_gpu0 =
     \<lparr>total_resources = [CPU \<mapsto> 32, GPU \<mapsto> 0],
      allocated_resources = [CPU \<mapsto> 32, GPU \<mapsto> 0]\<rparr>"

definition job_gpu4 :: JobInfo where
  "job_gpu4 = \<lparr>name = ''gpu-job'', namespace = ''default'', priority = NORMAL,
            creation_timestamp = 0, resources = [(GPU, 4), (CPU, 2)],
            gang_scheduling = False, gang_id = None\<rparr>"

definition job_g1_a :: JobInfo where
  "job_g1_a = \<lparr>name = ''g1-a'', namespace = ''default'', priority = NORMAL,
            creation_timestamp = 0, resources = [(CPU, 8), (GPU, 4)],
            gang_scheduling = True, gang_id = Some ''g1''\<rparr>"

definition job_h1 :: JobInfo where
  "job_h1 = \<lparr>name = ''h1'', namespace = ''default'', priority = NORMAL,
            creation_timestamp = 0, resources = [(CPU, 1)],
            gang_scheduling = False, gang_id = None\<rparr>"

definition job_gang_no_id :: JobInfo where
  "job_gang_no_id = \<lparr>name = ''lonely'', namespace = ''default'', priority = NORMAL,
            creation_timestamp = 0, resources = [(CPU, 1)],
            gang_scheduling = True, gang_id = None\<rparr>"

definition job_old :: JobInfo where
  "job_old = \<lparr>name = ''a-old'', namespace = ''default'', priority = NORMAL,
            creation_timestamp = 0, resources = [(CPU, 64)],
            gang_scheduling = False, gang_id = None\<rparr>"

definition job_new :: JobInfo where
  "job_new = \<lparr>name = ''b-new'', namespace = ''default'', priority = NORMAL,
            creation_timestamp = 10, resources = [(CPU, 32)],
            gang_scheduling = False, gang_id = None\<rparr>"

definition k8s_job_bad_memory :: K8sJob where
  "k8s_job_bad_memory =
     \<lparr>job_name = ''train'', job_namespace = ''default'', job_creation_timestamp = 0,
      job_annotations = None,
      job_containers =
        [\<lparr>container_resources =
            Some \<lparr>requests = Some [(''cpu'', ''500m''), (''memory'', ''abc'')]\<rparr>\<rparr>],
      status_conditions = []\<rparr>"

definition api_one_workload :: KueueApi where
  "api_one_workload =
     \<lparr>list_workloads = Some [\<lparr>workload_name = ''job-h1-x7k2p'',
                               workload_namespace = Some ''default''\<rparr>],
      patch_succeeds = (\<lambda>call. True)\<rparr>"

definition jobs_25 :: "(JobInfo \<times> real) list" where
  "jobs_25 = map (\<lambda>i. (job_h1, real i)) (rev [0..<25])"

section \<open>Properties of the scorer\<close>

lemma py_max_fold_Max:
  "fold (\<lambda>y m. if m < y then y else m) xs (m::real) = Max (insert m (set xs))"
proof (induction xs arbitrary: m)
  case Nil
  show ?case by simp
next
  case (Cons x xs)
  have "(if m < x then x else m) = max m x" by (simp add: max_def)
  moreover have "Max (insert (max m x) (set xs)) = Max (insert m (insert x (set xs)))"
    by (cases "set xs = {}") (simp_all add: max.assoc max.commute max.left_commute)
  ultimately show ?case using Cons.IH [of "max m x"] by simp
qed

lemma py_max_Max: "xs \<noteq> [] \<Longrightarrow> py_max xs = Max (set xs)"
  by (cases xs) (simp_all add: py_max_fold_Max)

text \<open>
  Claim C1. For a job whose creation instant is not in the future, the priority score is
  the class weight (0 for URGENT, 1000 for NORMAL) plus the dominant share minus alpha
  times the age in seconds, where alpha is the scheduler's constructor-time constant,
  0.1 when the constructor is called without it.
\<close>

theorem priority_score_formula:
  assumes "creation_timestamp job \<le> now"
  shows "calculate_priority_score self now job cluster
           = spec_classWeight (priority job) + calculate_dominant_share job cluster
               - aging_alpha self * spec_age_seconds now job
         \<and> spec_classWeight URGENT = 0 \<and> spec_classWeight NORMAL = 1000
         \<and> aging_alpha (DRFScheduler_init None) = 1 / 10
         \<and> aging_alpha (DRFScheduler_init (Some a)) = a"
proof -
  have "calculate_priority_score self now job cluster
          = spec_classWeight (priority job) + calculate_dominant_share job cluster
              - aging_alpha self * spec_age_seconds now job"
    by (cases "priority job")
       (simp_all add: calculate_priority_score_def spec_classWeight_def spec_age_seconds_def)
  then show ?thesis
    by (simp add: spec_classWeight_def DRFScheduler_init_def)
qed

theorem priority_score_formula_witness:
  "creation_timestamp job_A \<le> 3600
   \<and> calculate_priority_score (DRFScheduler_init None) 3600 job_A cluster_32_8 = 1 / 4 - 360"
proof -
  have h: "creation_timestamp job_A \<le> 3600" by (simp add: job_A_def)
  have share: "calculate_dominant_share job_A cluster_32_8 = 1 / 4"
    by (simp add: calculate_dominant_share_def job_A_def cluster_32_8_def)
  show ?thesis
    using h priority_score_formula [OF h, of "DRFScheduler_init None" cluster_32_8 0] share
    by (simp add: job_A_def spec_classWeight_def spec_age_seconds_def)
qed

lemma set_dominant_shares:
  "set (dominant_shares rs tot) = {r / t | k r t. (k, r) \<in> set rs \<and> tot k = Some t \<and> 0 < t}"
proof (induction rs)
  case Nil
  show ?case by simp
next
  case (Cons p rs)
  obtain k r where p: "p = (k, r)" by (cases p)
  show ?case
  proof (cases "tot k")
    case None
    with Cons.IH p show ?thesis by auto
  next
    case (Some t)
    with Cons.IH p show ?thesis by (cases "0 < t") auto
  qed
qed

lemma set_all_kinds: "set all_kinds = UNIV"
proof -
  have "k \<in> set all_kinds" for k by (cases k) (simp_all add: all_kinds_def)
  then show ?thesis by blast
qed

lemma set_spec_considered:
  "set (spec_considered cluster) = {k. \<exists>t. total_resources cluster k = Some t \<and> 0 < t}"
  by (auto simp: spec_considered_def set_all_kinds split: option.splits)

lemma spec_request_member:
  "distinct (map fst (resources job)) \<Longrightarrow> (k, r) \<in> set (resources job) \<Longrightarrow> spec_request job k = r"
  by (simp add: spec_request_def)

lemma spec_request_cases:
  "spec_request job k = 0 \<or> (k, spec_request job k) \<in> set (resources job)"
  by (auto simp: spec_request_def split: option.splits dest: map_of_SomeD)

text \<open>
  Claim C2. The dominant share is the maximum, over the resource kinds whose cluster
  total is present and positive, of request over total, a kind the job does not request
  counting as a request of zero; kinds whose total is zero or absent are skipped, and
  the result is 0 when no kind is considered. The job's request is a resource vector of
  the data model: each kind at most once, no negative amount.
\<close>

theorem dominant_share_is_max:
  assumes dist: "distinct (map fst (resources job))"
    and nonneg: "list_all (\<lambda>(k, r). 0 \<le> r) (resources job)"
  shows "calculate_dominant_share job cluster = spec_dominantShare job cluster"
proof -
  define tot where "tot = total_resources cluster"
  define C where "C = set (dominant_shares (resources job) tot)"
  define S where "S = (\<lambda>k. spec_request job k / the (tot k)) ` set (spec_considered cluster)"
  have C_eq: "C = {r / t | k r t. (k, r) \<in> set (resources job) \<and> tot k = Some t \<and> 0 < t}"
    unfolding C_def by (rule set_dominant_shares)
  have ks: "set (spec_considered cluster) = {k. \<exists>t. tot k = Some t \<and> 0 < t}"
    unfolding tot_def by (rule set_spec_considered)
  have CS: "C \<subseteq> S"
  proof
    fix s assume "s \<in> C"
    then obtain k r t where s: "s = r / t" and m: "(k, r) \<in> set (resources job)"
      and t: "tot k = Some t" "0 < t" unfolding C_eq by blast
    have "spec_request job k = r" using dist m by (rule spec_request_member)
    moreover have "k \<in> set (spec_considered cluster)" using t unfolding ks by blast
    ultimately show "s \<in> S" unfolding S_def using s t by force
  qed
  have SC: "s \<in> C \<or> s = 0" if "s \<in> S" for s
  proof -
    from that obtain k t where s: "s = spec_request job k / t" and t: "tot k = Some t" "0 < t"
      unfolding S_def ks by auto
    from spec_request_cases [of job k] show ?thesis
    proof
      assume "spec_request job k = 0"
      then show ?thesis using s by simp
    next
      assume "(k, spec_request job k) \<in> set (resources job)"
      then show ?thesis unfolding C_eq using s t by blast
    qed
  qed
  have Cnn: "0 \<le> s" if "s \<in> C" for s
  proof -
    from that obtain k r t where s: "s = r / t" and m: "(k, r) \<in> set (resources job)"
      and t: "0 < t" unfolding C_eq by blast
    from nonneg m have "0 \<le> r" by (auto simp: list_all_iff)
    then show ?thesis using s t by simp
  qed
  have finS: "finite S" unfolding S_def by simp
  have finC: "finite C" unfolding C_def by simp
  have code: "calculate_dominant_share job cluster = (if C = {} then 0 else Max C)"
    unfolding calculate_dominant_share_def C_def tot_def
    by (simp add: Let_def py_max_Max)
  have spec: "spec_dominantShare job cluster = (if S = {} then 0 else Max S)"
    unfolding spec_dominantShare_def S_def tot_def by (simp add: Let_def)
  show ?thesis
  proof (cases "S = {}")
    case True
    then have "C = {}" using CS by blast
    then show ?thesis using True code spec by simp
  next
    case Sne: False
    show ?thesis
    proof (cases "C = {}")
      case True
      then have "\<forall>s\<in>S. s = 0" using SC by blast
      then have "Max S = 0" using Sne finS by (metis Max_in)
      then show ?thesis using True Sne code spec by simp
    next
      case Cne: False
      have "Max C \<in> C" using finC Cne by (rule Max_in)
      then have le1: "Max C \<le> Max S" using CS finS by (meson Max_ge subsetD)
      have "Max S \<in> S" using finS Sne by (rule Max_in)
      then have "Max S \<in> C \<or> Max S = 0" by (rule SC)
      then have le2: "Max S \<le> Max C"
      proof
        assume "Max S \<in> C" then show ?thesis using finC by simp
      next
        assume "Max S = 0"
        moreover have "0 \<le> Max C" using \<open>Max C \<in> C\<close> by (rule Cnn)
        ultimately show ?thesis by simp
      qed
      from le1 le2 show ?thesis using Cne Sne code spec by simp
    qed
  qed
qed

theorem dominant_share_is_max_witness:
  "distinct (map fst (resources job_gpu4))
   \<and> list_all (\<lambda>(k, r). 0 \<le> r) (resources job_gpu4)
   \<and> calculate_dominant_share job_gpu4 cluster_gpu0 = 1 / 16
   \<and> spec_dominantShare job_gpu4 cluster_gpu0 = 1 / 16"
proof -
  have d: "distinct (map fst (resources job_gpu4))" by (simp add: job_gpu4_def)
  have n: "list_all (\<lambda>(k, r). 0 \<le> r) (resources job_gpu4)" by (simp add: job_gpu4_def)
  have c: "calculate_dominant_share job_gpu4 cluster_gpu0 = 1 / 16"
    by (simp add: calculate_dominant_share_def job_gpu4_def cluster_gpu0_def)
  show ?thesis using d n c dominant_share_is_max [OF d n, of cluster_gpu0] by simp
qed

text \<open>
  Claim C5, as the specification states it: for a job created in the future of the
  current time the aging term is clamped to 0. The scorer has no clamp: at the default
  alpha, a job created 10 seconds in the future scores 1001, above the 1000 of the
  clamped formula.
\<close>

theorem negative_age_clamp_counterexample:
  "0 < creation_timestamp job_future
   \<and> calculate_priority_score (DRFScheduler_init None) 0 job_future cluster_32_8 = 1001
   \<and> spec_clamped_score (DRFScheduler_init None) 0 job_future cluster_32_8 = 1000"
  by (simp add: calculate_priority_score_def calculate_dominant_share_def spec_clamped_score_def
      spec_classWeight_def spec_age_seconds_def DRFScheduler_init_def job_future_def)

text \<open>
  Claim C5, amended. For a job created in the future of the current time the aging
  term is alpha times the negative age, unclamped: the score is the class weight plus
  the dominant share plus alpha times the seconds by which the creation instant lies
  ahead, which is above class weight plus dominant share whenever alpha is positive.
\<close>

theorem negative_age_not_clamped:
  assumes "now < creation_timestamp job"
  shows "calculate_priority_score self now job cluster
           = spec_classWeight (priority job) + calculate_dominant_share job cluster
               + aging_alpha self * (creation_timestamp job - now)
         \<and> (0 < aging_alpha self \<longrightarrow>
              spec_classWeight (priority job) + calculate_dominant_share job cluster
                < calculate_priority_score self now job cluster)"
proof -
  have eq: "calculate_priority_score self now job cluster
          = spec_classWeight (priority job) + calculate_dominant_share job cluster
              + aging_alpha self * (creation_timestamp job - now)"
    by (cases "priority job")
       (simp_all add: calculate_priority_score_def spec_classWeight_def algebra_simps)
  have "0 < aging_alpha self * (creation_timestamp job - now)" if "0 < aging_alpha self"
    using that assms by simp
  with eq show ?thesis by simp
qed

theorem negative_age_not_clamped_witness:
  "0 < creation_timestamp job_future
   \<and> calculate_priority_score (DRFScheduler_init None) 0 job_future cluster_32_8
       = spec_classWeight NORMAL + calculate_dominant_share job_future cluster_32_8 + 1
   \<and> spec_classWeight NORMAL + calculate_dominant_share job_future cluster_32_8
       < calculate_priority_score (DRFScheduler_init None) 0 job_future cluster_32_8"
proof -
  have h: "0 < creation_timestamp job_future" by (simp add: job_future_def)
  have a: "aging_alpha (DRFScheduler_init None) = 1 / 10" by (simp add: DRFScheduler_init_def)
  show ?thesis
    using h a negative_age_not_clamped [OF h, of "DRFScheduler_init None" cluster_32_8]
    by (simp add: job_future_def)
qed

lemma gang_groups_append_members:
  "(\<Union>(g, js) \<in> set (gang_groups_append groups g0 job). set js)
     = insert job (\<Union>(g, js) \<in> set groups. set js)"
  by (induction groups g0 job rule: gang_groups_append.induct) auto

lemma group_by_gang_members:
  "(\<Union>(g, js) \<in> set (group_by_gang jobs groups). set js)
     = (\<Union>(g, js) \<in> set groups. set js)
         \<union> {job \<in> set jobs. gang_scheduling job \<and> str_truthy (gang_id job)}"
proof (induction jobs arbitrary: groups)
  case Nil
  show ?case by simp
next
  case (Cons job jobs)
  show ?case
  proof (cases "gang_scheduling job \<and> str_truthy (gang_id job)")
    case True
    then obtain g where g: "gang_id job = Some g" by (auto simp: str_truthy_def split: option.splits)
    show ?thesis using True g Cons.IH [of "gang_groups_append groups g job"]
      by (auto simp: gang_groups_append_members)
  next
    case False
    then show ?thesis using Cons.IH [of groups] by auto
  qed
qed

lemma collect_ready_gangs_members:
  "set (collect_ready_gangs groups) = (\<Union>(g, js) \<in> set groups. set js)"
  by (induction groups rule: collect_ready_gangs.induct)
     (auto simp: JobInfo_truthy_def list_all_iff)

lemma set_handle_gang_scheduling:
  "set (handle_gang_scheduling jobs)
     = {job \<in> set jobs. (gang_scheduling job \<and> str_truthy (gang_id job)) \<or> \<not> gang_scheduling job}"
  by (auto simp: handle_gang_scheduling_def Let_def collect_ready_gangs_members group_by_gang_members)

section \<open>Properties of the gang filter and the ranking\<close>

text \<open>
  Claim C9. A job with \<open>gang_scheduling\<close> true and \<open>gang_id\<close> unset is in no gang group
  and is not a non-gang job either: it is absent from the output of the gang filter,
  whatever the input list.
\<close>

theorem gang_without_id_excluded:
  assumes "gang_scheduling job" and "gang_id job = None"
  shows "job \<notin> set (handle_gang_scheduling jobs)"
  using assms by (simp add: set_handle_gang_scheduling str_truthy_def)

theorem gang_without_id_excluded_witness:
  "gang_scheduling job_gang_no_id \<and> gang_id job_gang_no_id = None
   \<and> job_gang_no_id \<notin> set (handle_gang_scheduling [job_gang_no_id, job_h1])
   \<and> handle_gang_scheduling [job_gang_no_id, job_h1] = [job_h1]"
proof -
  have a: "gang_scheduling job_gang_no_id" and b: "gang_id job_gang_no_id = None"
    by (simp_all add: job_gang_no_id_def)
  have c: "handle_gang_scheduling [job_gang_no_id, job_h1] = [job_h1]"
    by (simp add: handle_gang_scheduling_def str_truthy_def job_gang_no_id_def job_h1_def)
  show ?thesis
    using a b c gang_without_id_excluded [OF a b, of "[job_gang_no_id, job_h1]"] by simp
qed

text \<open>
  Claim C3 at the specification's own scenario: the pending set holds g1-a, a member of
  gang g1 whose sibling g1-b is not pending, and the singleton h1. The readiness test
  \<^verbatim>\<open>all(job for job in gang_jobs)\<close> looks at the truth value of jobs that are in the
  group because they are pending, so it holds for every group, and g1-a is forwarded.
\<close>

theorem partial_gang_is_forwarded:
  "handle_gang_scheduling [job_g1_a, job_h1] = [job_g1_a, job_h1]"
  by (simp add: handle_gang_scheduling_def str_truthy_def JobInfo_truthy_def job_g1_a_def job_h1_def)

text \<open>
  Claim C4, as the specification states it: equal scores are ordered by creation instant
  and the order does not depend on how the input is presented. Two jobs of score 1001,
  the older one presented second, stay in the order of presentation, which is not the
  specification's ranking; presented the other way round they come out the other way.
\<close>

theorem tie_break_counterexample:
  "calculate_job_priorities (DRFScheduler_init None) 10 [job_new, job_old] (Some cluster_32_8)
     = [(job_new, 1001), (job_old, 1001)]
   \<and> creation_timestamp job_old < creation_timestamp job_new
   \<and> \<not> spec_ranked (calculate_job_priorities (DRFScheduler_init None) 10 [job_new, job_old] (Some cluster_32_8))
   \<and> calculate_job_priorities (DRFScheduler_init None) 10 [job_old, job_new] (Some cluster_32_8)
     = [(job_old, 1001), (job_new, 1001)]
   \<and> [(job_new, 1001 :: real), (job_old, 1001)] \<noteq> [(job_old, 1001), (job_new, 1001)]"
proof -
  have s_new: "calculate_priority_score (DRFScheduler_init None) 10 job_new cluster_32_8 = 1001"
    by (simp add: calculate_priority_score_def calculate_dominant_share_def DRFScheduler_init_def
        job_new_def cluster_32_8_def)
  have s_old: "calculate_priority_score (DRFScheduler_init None) 10 job_old cluster_32_8 = 1001"
    by (simp add: calculate_priority_score_def calculate_dominant_share_def DRFScheduler_init_def
        job_old_def cluster_32_8_def)
  have f1: "handle_gang_scheduling [job_new, job_old] = [job_new, job_old]"
    by (simp add: handle_gang_scheduling_def job_new_def job_old_def)
  have f2: "handle_gang_scheduling [job_old, job_new] = [job_old, job_new]"
    by (simp add: handle_gang_scheduling_def job_new_def job_old_def)
  have r1: "calculate_job_priorities (DRFScheduler_init None) 10 [job_new, job_old] (Some cluster_32_8)
     = [(job_new, 1001), (job_old, 1001)]"
    by (simp add: calculate_job_priorities_def f1 s_new s_old)
  have r2: "calculate_job_priorities (DRFScheduler_init None) 10 [job_old, job_new] (Some cluster_32_8)
     = [(job_old, 1001), (job_new, 1001)]"
    by (simp add: calculate_job_priorities_def f2 s_new s_old)
  have c: "creation_timestamp job_old < creation_timestamp job_new"
    by (simp add: job_new_def job_old_def)
  have ne: "job_new \<noteq> job_old"
  proof
    assume "job_new = job_old"
    then have "creation_timestamp job_new = creation_timestamp job_old" by simp
    then show False by (simp add: job_new_def job_old_def)
  qed
  have ns: "\<not> spec_ranked [(job_new, 1001), (job_old, 1001)]"
    by (simp add: spec_ranked_def spec_ranked_before_def job_new_def job_old_def)
  show ?thesis using r1 r2 c ne ns by simp
qed

text \<open>
  Claim C4, amended. The ranking is a stable sort on the score alone: the scores ascend,
  the ranked jobs are the scored jobs, and the jobs of any one score keep the relative
  order in which the gang filter emitted them.
\<close>

theorem ranking_is_stable_sort:
  "(let scored = map (\<lambda>job. (job, calculate_priority_score drf now job c))
                     (handle_gang_scheduling pending);
        ranked = calculate_job_priorities drf now pending (Some c)
    in sorted (map snd ranked)
       \<and> mset ranked = mset scored
       \<and> (\<forall>s. filter (\<lambda>p. snd p = s) ranked = filter (\<lambda>p. snd p = s) scored))"
proof (cases "pending = []")
  case True
  then show ?thesis
    by (simp add: calculate_job_priorities_def handle_gang_scheduling_def)
next
  case False
  then show ?thesis
    by (simp add: calculate_job_priorities_def Let_def sort_key_stable)
qed

section \<open>Properties of the job observer\<close>

lemma parse_cpu_request_raises:
  "isl (parse_cpu_request float s)
     = isl (float (if endswith s ''m'' then drop_last 1 s else s))"
  by (simp add: parse_cpu_request_def split: sum.splits)

lemma parse_memory_request_raises:
  "isl (parse_memory_request float s)
     = isl (float (if endswith s ''Ki'' \<or> endswith s ''Mi'' \<or> endswith s ''Gi''
                      \<or> endswith s ''Ti'' then drop_last 2 s else s))"
  by (simp add: parse_memory_request_def split: sum.splits)

lemma dict_has_no_quantity_attribute:
  "dict_getattr rq ''cpu'' = None" "dict_getattr rq ''memory'' = None"
  "dict_getattr rq ''nvidia.com/gpu'' = None"
  by (simp_all add: dict_getattr_def dict_method_names_def)

lemma extract_requests_empty: "extract_requests float rq = Inr []"
  by (simp add: extract_requests_def dict_has_no_quantity_attribute)

lemma extract_resources_empty: "extract_resources float job = Inr []"
  by (simp add: extract_resources_def extract_requests_empty
      split: list.splits option.splits)

lemma extract_job_info_resources:
  "\<exists>job_info. extract_job_info float job = Some job_info \<and> resources job_info = []"
  by (simp add: extract_job_info_def Let_def extract_resources_empty)

lemma get_pending_jobs_raises:
  "js \<noteq> [] \<Longrightarrow> get_pending_jobs float (Some js) = Inl AttributeError"
  by (cases js) (simp_all add: get_pending_jobs_def is_pending_def status_phase_def)

text \<open>
  Claim C6 at a pending job of the batch client whose first container requests CPU
  \<^verbatim>\<open>500m\<close> and memory \<^verbatim>\<open>abc\<close>. The claim has the job converted with the CPU request
  of half a core and the memory absent, and scored. The memory parser on its own raises
  on \<^verbatim>\<open>abc\<close>, with no handler that would drop the field. The extraction never reaches a
  parser: the requests are a dict, \<^verbatim>\<open>hasattr\<close> is false for each of the three names,
  and the job is converted with no resource at all, the well-formed CPU request lost
  with the malformed memory. The observer does not reach the extraction: reading the
  status's \<^verbatim>\<open>phase\<close> raises, and the listing yields no pending job to score.
\<close>

theorem malformed_quantity_at_client_job:
  "parse_memory_request py_float_decimal ''abc'' = Inl ValueError
   \<and> parse_cpu_request py_float_decimal ''500m'' = Inr (1 / 2)
   \<and> extract_job_info py_float_decimal k8s_job_bad_memory
       = Some \<lparr>name = ''train'', namespace = ''default'', priority = NORMAL,
                creation_timestamp = 0, resources = [],
                gang_scheduling = False, gang_id = None\<rparr>
   \<and> get_pending_jobs py_float_decimal (Some [k8s_job_bad_memory]) = Inl AttributeError"
proof -
  have m: "parse_memory_request py_float_decimal ''abc'' = Inl ValueError"
    by (simp add: parse_memory_request_def endswith_def py_float_decimal_def digit_of_def)
  have c: "parse_cpu_request py_float_decimal ''500m'' = Inr (1 / 2)"
    by (simp add: parse_cpu_request_def endswith_def drop_last_def py_float_decimal_def
        digit_of_def)
  have e: "extract_job_info py_float_decimal k8s_job_bad_memory
       = Some \<lparr>name = ''train'', namespace = ''default'', priority = NORMAL,
                creation_timestamp = 0, resources = [],
                gang_scheduling = False, gang_id = None\<rparr>"
    by (simp add: extract_job_info_def Let_def extract_resources_empty k8s_job_bad_memory_def
        annotations_truthy_def)
  have p: "get_pending_jobs py_float_decimal (Some [k8s_job_bad_memory]) = Inl AttributeError"
    by (simp add: get_pending_jobs_def is_pending_def status_phase_def)
  show ?thesis using m c e p by simp
qed

section \<open>Properties of the queue updater\<close>

declare update_batches.simps [simp del]

lemma update_batches_done:
  "length jp \<le> i \<Longrightarrow> update_batches api jp i sc = (sc, [])"
  by (subst update_batches.simps) simp

lemma update_batches_step:
  "i < length jp \<Longrightarrow>
   map fst (snd (update_batches api jp i sc))
     = enumerate (i + 1) (take batch_size (drop i jp))
       # map fst (snd (update_batches api jp (i + batch_size)
            (sc + length (filter fst (map (patch_job api)
               (enumerate (i + 1) (take batch_size (drop i jp))))))))"
  by (subst update_batches.simps) (simp add: Let_def)

lemma batches_concat:
  "concat (map fst (snd (update_batches api jp i sc))) = enumerate (i + 1) (drop i jp)"
proof (induction api jp i sc rule: update_batches.induct)
  case (1 api jp i sc)
  show ?case
  proof (cases "i < length jp")
    case False
    then show ?thesis by (simp add: update_batches_done)
  next
    case True
    let ?b = "enumerate (i + 1) (take batch_size (drop i jp))"
    let ?sc = "sc + length (filter fst (map (patch_job api) ?b))"
    have IH: "concat (map fst (snd (update_batches api jp (i + batch_size) ?sc)))
                = enumerate (i + batch_size + 1) (drop (i + batch_size) jp)"
      using "1.IH" [OF True refl refl] by simp
    have split: "drop i jp = take batch_size (drop i jp) @ drop (i + batch_size) jp"
      by (metis add.commute append_take_drop_id drop_drop)
    have "enumerate (i + 1) (drop i jp)
            = ?b @ enumerate (i + 1 + length (take batch_size (drop i jp)))
                     (drop (i + batch_size) jp)"
      by (subst split) (simp only: enumerate_append_eq)
    also have "enumerate (i + 1 + length (take batch_size (drop i jp)))
                     (drop (i + batch_size) jp)
               = enumerate (i + batch_size + 1) (drop (i + batch_size) jp)"
    proof (cases "i + batch_size \<le> length jp")
      case True
      then have "length (take batch_size (drop i jp)) = batch_size" by simp
      then show ?thesis by (simp add: add.commute add.left_commute)
    next
      case False
      then have "drop (i + batch_size) jp = []" by simp
      then show ?thesis by simp
    qed
    finally show ?thesis using True IH by (simp add: update_batches_step)
  qed
qed

lemma batches_lengths:
  "map length (map fst (snd (update_batches api jp i sc)))
     = replicate ((length jp - i) div batch_size) batch_size
       @ (if (length jp - i) mod batch_size = 0 then [] else [(length jp - i) mod batch_size])"
proof (induction api jp i sc rule: update_batches.induct)
  case (1 api jp i sc)
  show ?case
  proof (cases "i < length jp")
    case False
    then show ?thesis by (simp add: update_batches_done)
  next
    case True
    let ?b = "enumerate (i + 1) (take batch_size (drop i jp))"
    let ?sc = "sc + length (filter fst (map (patch_job api) ?b))"
    let ?n = "length jp - i"
    have IH: "map length (map fst (snd (update_batches api jp (i + batch_size) ?sc)))
                = replicate ((?n - batch_size) div batch_size) batch_size
       @ (if (?n - batch_size) mod batch_size = 0 then []
          else [(?n - batch_size) mod batch_size])"
      using "1.IH" [OF True refl refl] by (simp add: algebra_simps)
    have lb: "length ?b = min batch_size ?n" by (simp add: min.commute)
    show ?thesis
    proof (cases "batch_size \<le> ?n")
      case big: True
      have d: "?n div batch_size = Suc ((?n - batch_size) div batch_size)"
        using big by (simp add: batch_size_def le_div_geq)
      have m: "?n mod batch_size = (?n - batch_size) mod batch_size"
        using big by (simp add: le_mod_geq)
      show ?thesis
        using True big IH lb by (simp add: update_batches_step d m del: length_enumerate)
    next
      case small: False
      then have d: "?n div batch_size = 0" and m: "?n mod batch_size = ?n" by simp_all
      have rest: "update_batches api jp (i + batch_size) ?sc = (?sc, [])"
        using small by (intro update_batches_done) simp
      have "?n \<noteq> 0" using True by simp
      then show ?thesis
        using True small lb rest by (simp add: update_batches_step d m del: length_enumerate)
    qed
  qed
qed

lemma batches_results:
  "\<forall>(batch, results) \<in> set (snd (update_batches api jp i sc)). results = map (patch_job api) batch"
proof (induction api jp i sc rule: update_batches.induct)
  case (1 api jp i sc)
  show ?case
  proof (cases "i < length jp")
    case False
    then show ?thesis by (simp add: update_batches_done)
  next
    case True
    show ?thesis
      using "1.IH" [OF True refl refl] True
      by (subst update_batches.simps) (simp add: Let_def)
  qed
qed

lemma take_enumerate: "take k (enumerate n xs) = enumerate n (take k xs)"
proof (induction xs arbitrary: k n)
  case Nil
  show ?case by simp
next
  case (Cons x xs)
  show ?case by (cases k) (simp_all add: Cons.IH)
qed

lemma hd_batches: "map length bs = n # ns \<Longrightarrow> hd bs = take n (concat bs)"
  by (cases bs) auto

text \<open>
  Claim C8. The updater sorts the jobs by score ascending and cuts the sorted list, with
  ranks from 1, into consecutive batches: the batches concatenated are the ranked list,
  every batch but possibly the last has 10 jobs and the last has the remainder, and
  the rounds run in that order, each mapping the patch over its batch. For 25 jobs the
  batch sizes are 10, 10 and 5, and the first batch is the first ten of the ranked
  list, the ten lowest scores.
\<close>

theorem batches_of_ten_ascending:
  "(let ranked = sort_key snd xs;
        bs = map fst (rounds (update_all_job_priorities api xs))
    in concat bs = enumerate 1 ranked
       \<and> sorted (map snd ranked) \<and> mset ranked = mset xs
       \<and> map length bs
           = replicate (length xs div 10) 10
             @ (if length xs mod 10 = 0 then [] else [length xs mod 10])
       \<and> (\<forall>(batch, results) \<in> set (rounds (update_all_job_priorities api xs)).
             results = map (patch_job api) batch)
       \<and> (length xs = 25 \<longrightarrow>
             map length bs = [10, 10, 5] \<and> hd bs = enumerate 1 (take 10 ranked)))"
proof -
  define ranked where "ranked = sort_key snd xs"
  define bs where "bs = map fst (rounds (update_all_job_priorities api xs))"
  have bs: "bs = map fst (snd (update_batches api ranked 0 0))"
    by (simp add: bs_def ranked_def update_all_job_priorities_def Let_def)
  have c: "concat bs = enumerate 1 ranked"
    using batches_concat [of api ranked 0 0] by (simp add: bs)
  have l: "map length bs = replicate (length xs div 10) 10
             @ (if length xs mod 10 = 0 then [] else [length xs mod 10])"
    using batches_lengths [of api ranked 0 0] by (simp add: bs batch_size_def ranked_def)
  have r: "\<forall>(batch, results) \<in> set (rounds (update_all_job_priorities api xs)).
             results = map (patch_job api) batch"
    using batches_results [of api ranked 0 0]
    by (simp add: update_all_job_priorities_def Let_def ranked_def)
  have s: "sorted (map snd ranked)" and m: "mset ranked = mset xs"
    by (simp_all add: ranked_def)
  have n25: "map length bs = [10, 10, 5] \<and> hd bs = enumerate 1 (take 10 ranked)"
    if len: "length xs = 25"
  proof -
    have d: "(25::nat) div 10 = 2" and md: "(25::nat) mod 10 = 5" by simp_all
    have rp: "replicate 2 (10::nat) = [10, 10]" by (simp add: numeral_2_eq_2)
    have l25: "map length bs = [10, 10, 5]" using l by (simp add: len d md rp)
    have "hd bs = take 10 (concat bs)" by (rule hd_batches [OF l25])
    then show ?thesis using l25 by (simp add: c take_enumerate)
  qed
  show ?thesis
    unfolding Let_def ranked_def [symmetric] bs_def [symmetric]
  proof (intro conjI impI)
    show "concat bs = enumerate 1 ranked" by (rule c)
    show "sorted (map snd ranked)" by (rule s)
    show "mset ranked = mset xs" by (rule m)
    show "map length bs = replicate (length xs div 10) 10
             @ (if length xs mod 10 = 0 then [] else [length xs mod 10])" by (rule l)
    show "\<forall>(batch, results) \<in> set (rounds (update_all_job_priorities api xs)).
             results = map (patch_job api) batch" by (rule r)
    show "map length bs = [10, 10, 5]" if "length xs = 25" using n25 [OF that] by simp
    show "hd bs = enumerate 1 (take 10 ranked)" if "length xs = 25"
      using n25 [OF that] by simp
  qed
qed

theorem batches_of_ten_ascending_witness:
  "length jobs_25 = 25
   \<and> map length (map fst (rounds (update_all_job_priorities api_one_workload jobs_25)))
       = [10, 10, 5]
   \<and> hd (map fst (rounds (update_all_job_priorities api_one_workload jobs_25)))
       = enumerate 1 (take 10 (sort_key snd jobs_25))"
proof -
  have len: "length jobs_25 = 25" by (simp add: jobs_25_def)
  show ?thesis
    using len batches_of_ten_ascending [of jobs_25 api_one_workload]
    by (simp add: Let_def numeral_2_eq_2)
qed

lemma update_workload_priority_call:
  assumes "update_workload_priority api job s r = (ok, Some call)"
  shows "call_body call = patch_body s r"
  using assms
  by (auto simp: update_workload_priority_def update_workload_priority_private_def Let_def
      split: option.splits)

text \<open>
  Claim C7, amended. Every patch the updater issues for a job of score \<open>s\<close> at rank \<open>r\<close>
  sets \<^verbatim>\<open>spec.priority\<close> to \<open>s\<close> times 1000 truncated toward zero (the floor for
  a non-negative score, the ceiling for a negative one), and carries the three
  annotations: the score, the rank, and the updater's identity.
\<close>

theorem patch_priority_truncates:
  assumes "update_workload_priority api job s r = (ok, Some call)"
  shows "spec_priority (call_body call) = (if 0 \<le> s then \<lfloor>s * 1000\<rfloor> else \<lceil>s * 1000\<rceil>)
         \<and> annotations (call_body call)
             = [(''drf-scheduler/priority-score'', Str_of_float s),
                (''drf-scheduler/rank'', Str_of_int r),
                (''drf-scheduler/updated-by'', Str ''drf-controller'')]"
proof -
  have "call_body call = patch_body s r" using assms by (rule update_workload_priority_call)
  moreover have "(0 \<le> s * 1000) = (0 \<le> s)" by (simp add: zero_le_mult_iff)
  ultimately show ?thesis by (simp add: patch_body_def py_int_def)
qed

lemma found_h1: "get_workload_for_job api_one_workload job_h1
    = Some \<lparr>workload_name = ''job-h1-x7k2p'', workload_namespace = Some ''default''\<rparr>"
  by (simp add: get_workload_for_job_def api_one_workload_def job_h1_def sublist_Cons_right)

lemma update_h1:
  "update_workload_priority api_one_workload job_h1 s r
     = (True, Some \<lparr>call_namespace = ''default'', call_name = ''job-h1-x7k2p'',
                     call_body = patch_body s r\<rparr>)"
  unfolding update_workload_priority_def found_h1
  by (simp add: update_workload_priority_private_def api_one_workload_def)

text \<open>
  Claim C7, as the specification states it: \<^verbatim>\<open>spec.priority\<close> is the score times 1000
  rounded to the nearest integer. For the score 0.2506 the patch carries 250, and the
  nearest integer to 250.6 is 251.
\<close>

theorem patch_priority_round_counterexample:
  "spec_priority (call_body (the (snd (update_workload_priority api_one_workload job_h1
       (2506 / 10000) 1)))) = 250
   \<and> round ((2506 / 10000 :: real) * 1000) = 251"
proof -
  have f: "\<lfloor>(1253 / 5 :: real)\<rfloor> = 250" by simp
  have r: "round (1253 / 5 :: real) = 251" by (simp add: round_def)
  show ?thesis using f r by (simp add: update_h1 patch_body_def py_int_def)
qed

theorem patch_priority_truncates_witness:
  "update_workload_priority api_one_workload job_h1 (- 3 / 2000) 7
     = (True, Some \<lparr>call_namespace = ''default'', call_name = ''job-h1-x7k2p'',
                     call_body = patch_body (- 3 / 2000) 7\<rparr>)
   \<and> spec_priority (patch_body (- 3 / 2000) 7) = - 1
   \<and> annotations (patch_body (- 3 / 2000) 7)
             = [(''drf-scheduler/priority-score'', Str_of_float (- 3 / 2000)),
                (''drf-scheduler/rank'', Str_of_int 7),
                (''drf-scheduler/updated-by'', Str ''drf-controller'')]"
proof -
  have c: "\<lceil>- (3 / 2 :: real)\<rceil> = - 1" by (simp add: ceiling_def)
  show ?thesis
    using patch_priority_truncates [OF update_h1 [of "- 3 / 2000" 7]] c
    by (simp add: update_h1)
qed

lemma filter_key_singleton:
  "distinct (map f zs) \<Longrightarrow> k \<in> set zs \<Longrightarrow> filter (\<lambda>x. f k = f x) zs = [k]"
proof (induction zs)
  case Nil
  then show ?case by simp
next
  case (Cons z zs)
  show ?case
  proof (cases "k = z")
    case True
    have "filter (\<lambda>x. f z = f x) zs = []"
      using Cons.prems(1) by (auto simp: filter_empty_conv)
    then show ?thesis using True by simp
  next
    case False
    then have "k \<in> set zs" using Cons.prems(2) by simp
    moreover have "f z \<notin> f ` set zs" using Cons.prems(1) by simp
    then have "f k \<noteq> f z" using \<open>k \<in> set zs\<close> by (metis imageI)
    moreover have "distinct (map f zs)" using Cons.prems(1) by simp
    ultimately show ?thesis using Cons.IH by simp
  qed
qed

lemma sort_key_permutation:
  assumes perm: "mset xs = mset ys" and dist: "distinct (map f xs)"
  shows "sort_key f xs = sort_key f ys"
proof (rule properties_for_sort_key)
  show "mset (sort_key f ys) = mset xs" using perm by simp
  show "sorted (map f (sort_key f ys))" by simp
  fix k assume k: "k \<in> set (sort_key f ys)"
  have "mset (map f (sort_key f ys)) = mset (map f xs)" using perm by simp
  then have d: "distinct (map f (sort_key f ys))"
    using dist by (metis mset_eq_imp_distinct_iff)
  have kx: "k \<in> set xs" using k perm by (metis mset_eq_setD set_sort)
  show "filter (\<lambda>x. f k = f x) (sort_key f ys) = filter (\<lambda>x. f k = f x) xs"
    by (simp only: filter_key_singleton [OF d k] filter_key_singleton [OF dist kx])
qed

text \<open>
  Claim C10. For input lists with pairwise distinct scores, the updater does the same
  for every permutation of the input: the ranks, the batches, the patch calls and their
  results, and the two counts of the log line are equal. The queue's API is the same
  during both runs.
\<close>

theorem update_order_independent:
  assumes "mset xs = mset ys" and "distinct (map snd xs)"
  shows "update_all_job_priorities api xs = update_all_job_priorities api ys"
proof -
  have "sort_key snd xs = sort_key snd ys" using assms by (rule sort_key_permutation)
  then show ?thesis by (simp add: update_all_job_priorities_def)
qed

theorem update_order_independent_witness:
  "mset [(job_h1, 2 :: real), (job_A, 1)] = mset [(job_A, 1), (job_h1, 2)]
   \<and> distinct (map snd [(job_h1, 2 :: real), (job_A, 1)])
   \<and> update_all_job_priorities api_one_workload [(job_h1, 2), (job_A, 1)]
       = update_all_job_priorities api_one_workload [(job_A, 1), (job_h1, 2)]"
proof -
  have p: "mset [(job_h1, 2 :: real), (job_A, 1)] = mset [(job_A, 1), (job_h1, 2)]"
    by (simp add: add_mset_commute)
  have d: "distinct (map snd [(job_h1, 2 :: real), (job_A, 1)])" by simp
  show ?thesis using p d update_order_independent [OF p d, of api_one_workload] by simp
qed

end
